theory Spec2Isabelle
  imports Complex_Main "HOL-Library.Sublist" "HOL-Library.Log_Nat"
begin

section \<open>Salary tax calculator (India, US, UK): the computation engine\<close>

text \<open>
  The source is a single React component file. Its computational part is the table
  \<open>taxConfigs\<close> (bands and payroll extras per regime), the helper
  \<open>calcProgressiveTax\<close> and the derived figures in the body of
  \<open>SalaryTaxCalculator\<close>.

  Numbers: a JavaScript number is an IEEE double. The code is modelled twice. In the
  first model a finite number is a \<open>real\<close> and arithmetic is exact; the statements
  about which slices exist and in which order, about monotonicity, about which formula
  an extra applies to which argument and about the guard of the effective rate are made
  there. In the second model every subtraction, product and sum of
  \<open>calcProgressiveTax\<close> is rounded to the nearest double (\<open>rd\<close>); the statements that
  two computed numbers are equal, or how far apart they are, are made there. The one
  non-finite value the code creates on purpose, \<open>Infinity\<close> for a band without upper
  bound, is a constructor of its own.
\<close>

subsection \<open>Types\<close>

datatype FilingStatusUS = single | married

text \<open>\<open>upto\<close> is the upper bound; \<open>None\<close> is the source's \<open>null\<close> (no upper limit).\<close>

record Band =
  upto :: "real option"
  rate :: real

datatype CountryKey = india_new | india_old | us | uk

record Slice =
  amount :: real
  rate :: real
  tax :: real

record ExtraItem =
  label :: string
  amount :: real

text \<open>
  The \<open>params\<close> object is untyped (\<open>any\<close>) in the source; the fields the regimes read
  are listed here, each \<open>None\<close> when the object does not have it (\<open>undefined\<close>).
\<close>

record Params =
  filing :: "FilingStatusUS option"
  includeFICA :: "bool option"
  includeNI :: "bool option"
  personalAllowance :: "real option"

record Defaults =
  standardDeduction :: real
  otherDeductions :: real

text \<open>
  The computational fields of \<open>TaxConfig\<close>; \<open>currency\<close>, \<open>countryLabel\<close>, \<open>notes\<close> and
  \<open>ParamsUI\<close> are presentation only. \<open>extras\<close> and \<open>defaultParams\<close> are optional.
\<close>

record TaxConfig =
  defaults :: Defaults
  bands :: "Params option \<Rightarrow> Band list"
  extras :: "(real \<Rightarrow> real \<Rightarrow> Params option \<Rightarrow> ExtraItem list) option"
  defaultParams :: "Params option"

subsection \<open>Reading optional parameters\<close>

text \<open>\<open>p?.f\<close>: the field \<open>f\<close> of \<open>p\<close>, undefined when \<open>p\<close> or the field is missing.\<close>

definition opt_field :: "'p option \<Rightarrow> ('p \<Rightarrow> 'a option) \<Rightarrow> 'a option" where
  "opt_field p f = (case p of None \<Rightarrow> None | Some q \<Rightarrow> f q)"

text \<open>\<open>x ?? d\<close>\<close>

definition nullish :: "'a option \<Rightarrow> 'a \<Rightarrow> 'a" where
  "nullish x d = (case x of None \<Rightarrow> d | Some v \<Rightarrow> v)"

text \<open>Truthiness of an optional boolean: only \<open>true\<close> is truthy.\<close>

definition truthy :: "bool option \<Rightarrow> bool" where
  "truthy x \<longleftrightarrow> x = Some True"

subsection \<open>The regime table\<close>

definition india_new_bands :: "Params option \<Rightarrow> Band list" where
  "india_new_bands p =
     [\<lparr>upto = Some 300000, Band.rate = 0\<rparr>,
      \<lparr>upto = Some 700000, Band.rate = 0.05\<rparr>,
      \<lparr>upto = Some 1000000, Band.rate = 0.10\<rparr>,
      \<lparr>upto = Some 1200000, Band.rate = 0.15\<rparr>,
      \<lparr>upto = Some 1500000, Band.rate = 0.20\<rparr>,
      \<lparr>upto = None, Band.rate = 0.30\<rparr>]"

definition india_old_bands :: "Params option \<Rightarrow> Band list" where
  "india_old_bands p =
     [\<lparr>upto = Some 250000, Band.rate = 0\<rparr>,
      \<lparr>upto = Some 500000, Band.rate = 0.05\<rparr>,
      \<lparr>upto = Some 1000000, Band.rate = 0.20\<rparr>,
      \<lparr>upto = None, Band.rate = 0.30\<rparr>]"

definition us_bands :: "Params option \<Rightarrow> Band list" where
  "us_bands p =
     (let filing = nullish (opt_field p Params.filing) single
      in if filing = married
         then [\<lparr>upto = Some 22000, Band.rate = 0.1\<rparr>,
               \<lparr>upto = Some 94000, Band.rate = 0.12\<rparr>,
               \<lparr>upto = Some 201000, Band.rate = 0.22\<rparr>,
               \<lparr>upto = Some 383000, Band.rate = 0.24\<rparr>,
               \<lparr>upto = Some 487000, Band.rate = 0.32\<rparr>,
               \<lparr>upto = Some 732000, Band.rate = 0.35\<rparr>,
               \<lparr>upto = None, Band.rate = 0.37\<rparr>]
         else [\<lparr>upto = Some 11000, Band.rate = 0.1\<rparr>,
               \<lparr>upto = Some 47000, Band.rate = 0.12\<rparr>,
               \<lparr>upto = Some 100000, Band.rate = 0.22\<rparr>,
               \<lparr>upto = Some 191000, Band.rate = 0.24\<rparr>,
               \<lparr>upto = Some 243000, Band.rate = 0.32\<rparr>,
               \<lparr>upto = Some 366000, Band.rate = 0.35\<rparr>,
               \<lparr>upto = None, Band.rate = 0.37\<rparr>])"

definition us_extras :: "real \<Rightarrow> real \<Rightarrow> Params option \<Rightarrow> ExtraItem list" where
  "us_extras taxable gross p =
     (if truthy (opt_field p includeFICA)
      then (let ssWageCap = 168600;
                socialSecurity = min gross ssWageCap * 0.062;
                medicare = gross * 0.0145
            in [\<lparr>label = ''Social Security (6.2%)'', ExtraItem.amount = socialSecurity\<rparr>,
                \<lparr>label = ''Medicare (1.45%)'', ExtraItem.amount = medicare\<rparr>])
      else [])"

definition uk_bands :: "Params option \<Rightarrow> Band list" where
  "uk_bands p =
     [\<lparr>upto = Some (nullish (opt_field p personalAllowance) 12570), Band.rate = 0\<rparr>,
      \<lparr>upto = Some 50270, Band.rate = 0.20\<rparr>,
      \<lparr>upto = Some 125140, Band.rate = 0.40\<rparr>,
      \<lparr>upto = None, Band.rate = 0.45\<rparr>]"

definition uk_extras :: "real \<Rightarrow> real \<Rightarrow> Params option \<Rightarrow> ExtraItem list" where
  "uk_extras taxable gross p =
     (if truthy (opt_field p includeNI)
      then (let primaryThreshold = 12570;
                upperEarningsLimit = 50270;
                niLower = max 0 (min gross upperEarningsLimit - primaryThreshold) * 0.08;
                niUpper = max 0 (gross - upperEarningsLimit) * 0.02
            in [\<lparr>label = ''National Insurance (employee)'',
                 ExtraItem.amount = niLower + niUpper\<rparr>])
      else [])"

definition taxConfigs :: "CountryKey \<Rightarrow> TaxConfig" where
  "taxConfigs k =
     (case k of
        india_new \<Rightarrow>
          \<lparr>defaults = \<lparr>standardDeduction = 0, otherDeductions = 0\<rparr>,
           bands = india_new_bands, extras = None, defaultParams = None\<rparr>
      | india_old \<Rightarrow>
          \<lparr>defaults = \<lparr>standardDeduction = 0, otherDeductions = 0\<rparr>,
           bands = india_old_bands, extras = None, defaultParams = None\<rparr>
      | us \<Rightarrow>
          \<lparr>defaults = \<lparr>standardDeduction = 0, otherDeductions = 0\<rparr>,
           bands = us_bands, extras = Some us_extras,
           defaultParams = Some \<lparr>filing = Some single, includeFICA = Some True,
                                 includeNI = None, personalAllowance = None\<rparr>\<rparr>
      | uk \<Rightarrow>
          \<lparr>defaults = \<lparr>standardDeduction = 0, otherDeductions = 0\<rparr>,
           bands = uk_bands, extras = Some uk_extras,
           defaultParams = Some \<lparr>filing = None, includeFICA = None,
                                 includeNI = Some True, personalAllowance = Some 12570\<rparr>\<rparr>)"

subsection \<open>calcProgressiveTax\<close>

text \<open>
  \<open>cap\<close> and \<open>lastCap\<close> are finite or \<open>Infinity\<close> (\<open>band.upto ?? Infinity\<close>).
\<close>

datatype Cap = Fin real | Infinity

definition cap_of :: "Band \<Rightarrow> Cap" where
  "cap_of band = (case upto band of None \<Rightarrow> Infinity | Some u \<Rightarrow> Fin u)"

text \<open>
  \<open>Math.max(0, Math.min(remaining, cap - lastCap))\<close> for a finite \<open>remaining\<close>.
  \<open>Infinity - l\<close> is \<open>Infinity\<close>, so the minimum is \<open>remaining\<close>; \<open>c - Infinity\<close> is
  \<open>-Infinity\<close>, so the maximum is 0; \<open>Infinity - Infinity\<close> is NaN, which makes the
  slice amount NaN: the test \<open>sliceAmount > 0\<close> is then false and nothing is recorded,
  exactly as for the amount 0 that stands for it here.
\<close>

fun sliceAmount :: "real \<Rightarrow> Cap \<Rightarrow> Cap \<Rightarrow> real" where
  "sliceAmount remaining (Fin c) (Fin l) = max 0 (min remaining (c - l))"
| "sliceAmount remaining Infinity (Fin l) = max 0 remaining"
| "sliceAmount remaining (Fin c) Infinity = 0"
| "sliceAmount remaining Infinity Infinity = 0"

record ProgressiveTax =
  tax :: real
  slices :: "Slice list"

text \<open>
  The \<open>for\<close> loop over the bands, with the four mutable locals passed along:
  \<open>remaining\<close>, \<open>lastCap\<close>, \<open>total\<close> (here \<open>tot\<close>) and \<open>slices\<close> (here \<open>slcs\<close>). The
  empty list is the end of the iteration; \<open>remaining \<le> 0\<close> after the update is the
  \<open>break\<close>, written once for each branch of \<open>if (sliceAmount > 0)\<close>.
\<close>

fun calc_loop :: "Band list \<Rightarrow> real \<Rightarrow> Cap \<Rightarrow> real \<Rightarrow> Slice list \<Rightarrow> ProgressiveTax" where
  "calc_loop [] remaining lastCap tot slcs = \<lparr>tax = tot, slices = slcs\<rparr>"
| "calc_loop (band # rest) remaining lastCap tot slcs =
     (let cap = cap_of band;
          amt = sliceAmount remaining cap lastCap;
          sliceTax = amt * Band.rate band
      in if amt > 0
         then (let slcs' = slcs @ [\<lparr>Slice.amount = amt, Slice.rate = Band.rate band,
                                     Slice.tax = sliceTax\<rparr>];
                   tot' = tot + sliceTax;
                   remaining' = remaining - amt;
                   lastCap' = cap
               in if remaining' \<le> 0 then \<lparr>tax = tot', slices = slcs'\<rparr>
                  else calc_loop rest remaining' lastCap' tot' slcs')
         else if remaining \<le> 0 then \<lparr>tax = tot, slices = slcs\<rparr>
              else calc_loop rest remaining lastCap tot slcs)"

definition calcProgressiveTax :: "real \<Rightarrow> Band list \<Rightarrow> ProgressiveTax" where
  "calcProgressiveTax income bs = calc_loop bs (max 0 income) (Fin 0) 0 []"

subsection \<open>The derived figures of the component\<close>

datatype Period = annual | monthly

text \<open>The component's state: what the user has entered.\<close>

record CalcState =
  country :: CountryKey
  amount :: real
  period :: Period
  standardDeduction :: real
  otherDeductions :: real
  params :: Params

text \<open>
  \<open>a / b\<close> on finite numbers; \<open>None\<close> stands for the non-finite result (an infinity or
  NaN) that JavaScript gives for a zero divisor.
\<close>

definition js_div :: "real \<Rightarrow> real \<Rightarrow> real option" where
  "js_div a b = (if b = 0 then None else Some (a / b))"

record Figures =
  grossAnnual :: real
  deductions :: real
  taxableBase :: real
  incomeTax :: real
  slices :: "Slice list"
  extras :: "ExtraItem list"
  extraTotal :: real
  totalTax :: real
  netAnnual :: real
  marginalRate :: real
  effRate :: "real option"

definition compute :: "CalcState \<Rightarrow> Figures" where
  "compute s =
     (let cfg = taxConfigs (country s);
          grossAnnual = (if period s = annual then CalcState.amount s
                         else CalcState.amount s * 12);
          deductions = max 0 (CalcState.standardDeduction s + CalcState.otherDeductions s);
          taxableBase = max 0 (grossAnnual - deductions);
          pt = calcProgressiveTax taxableBase (bands cfg (Some (params s)));
          incomeTax = ProgressiveTax.tax pt;
          slices = ProgressiveTax.slices pt;
          extras = (case TaxConfig.extras cfg of
                      Some f \<Rightarrow> f taxableBase grossAnnual (Some (params s))
                    | None \<Rightarrow> []);
          extraTotal = foldl (\<lambda>a b. a + ExtraItem.amount b) 0 extras;
          totalTax = incomeTax + extraTotal;
          netAnnual = max 0 (grossAnnual - totalTax);
          marginalRate = (if slices \<noteq> [] then Slice.rate (last slices) else 0);
          effRate = (if grossAnnual > 0 then js_div totalTax grossAnnual else Some 0)
      in \<lparr>grossAnnual = grossAnnual, deductions = deductions, taxableBase = taxableBase,
          incomeTax = incomeTax, slices = slices, extras = extras,
          extraTotal = extraTotal, totalTax = totalTax, netAnnual = netAnnual,
          marginalRate = marginalRate, effRate = effRate\<rparr>)"

subsection \<open>Double arithmetic\<close>












subsection \<open>Band sequences\<close>

text \<open>
  A valid band partition: upper bounds strictly increasing where present, and exactly
  the last band unbounded.
\<close>

definition valid_partition :: "Band list \<Rightarrow> bool" where
  "valid_partition bs \<longleftrightarrow>
     bs \<noteq> [] \<and> upto (last bs) = None \<and>
     list_all (\<lambda>b. upto b \<noteq> None) (butlast bs) \<and>
     sorted_wrt (<) (map (\<lambda>b. the (upto b)) (butlast bs))"

text \<open>Every rate is a fraction in \<open>[0, 1]\<close>, as the band model requires.\<close>

definition valid_rates :: "Band list \<Rightarrow> bool" where
  "valid_rates bs \<longleftrightarrow> list_all (\<lambda>b. 0 \<le> Band.rate b \<and> Band.rate b \<le> 1) bs"



subsection \<open>Inputs used in the examples\<close>

text \<open>The two-band partition \<open>[{upto: 100, rate: 0}, {upto: null, rate: 0.1}]\<close>.\<close>

definition two_bands :: "Band list" where
  "two_bands = [\<lparr>upto = Some 100, Band.rate = 0\<rparr>, \<lparr>upto = None, Band.rate = 0.1\<rparr>]"

text \<open>A partition whose rates fall: \<open>[{upto: 100, rate: 0.2}, {upto: null, rate: 0.1}]\<close>.\<close>

definition falling_bands :: "Band list" where
  "falling_bands = [\<lparr>upto = Some 100, Band.rate = 0.2\<rparr>, \<lparr>upto = None, Band.rate = 0.1\<rparr>]"

text \<open>The empty object \<open>{}\<close> that \<open>params\<close> is for a regime without \<open>defaultParams\<close>.\<close>

definition no_params :: Params where
  "no_params = \<lparr>filing = None, includeFICA = None, includeNI = None, personalAllowance = None\<rparr>"

text \<open>UK, 60,000 a year, 10,000 of deductions, default parameters.\<close>

definition uk_state :: CalcState where
  "uk_state = \<lparr>country = uk, amount = 60000, period = annual,
                standardDeduction = 10000, otherDeductions = 0,
                params = \<lparr>filing = None, includeFICA = None, includeNI = Some True,
                           personalAllowance = Some 12570\<rparr>\<rparr>"

text \<open>India (new regime), nothing earned, 5,000 of deductions.\<close>

definition zero_state :: CalcState where
  "zero_state = \<lparr>country = india_new, amount = 0, period = annual,
                  standardDeduction = 5000, otherDeductions = 0, params = no_params\<rparr>"

text \<open>US, 5,000 a month, FICA switched off.\<close>

definition us_no_fica_state :: CalcState where
  "us_no_fica_state = \<lparr>country = us, amount = 5000, period = monthly,
                        standardDeduction = 0, otherDeductions = 0,
                        params = \<lparr>filing = Some single, includeFICA = Some False,
                                   includeNI = None, personalAllowance = None\<rparr>\<rparr>"

text \<open>UK, 40,000 a year, with a \<open>params\<close> object that has no \<open>includeNI\<close>.\<close>

definition uk_no_ni_state :: CalcState where
  "uk_no_ni_state = \<lparr>country = uk, amount = 40000, period = annual,
                      standardDeduction = 0, otherDeductions = 0, params = no_params\<rparr>"

text \<open>US with default parameters and the gross amount \<open>-1000\<close> typed into the form.\<close>

definition negative_gross_state :: CalcState where
  "negative_gross_state = \<lparr>country = us, amount = - 1000, period = annual,
                            standardDeduction = 0, otherDeductions = 0,
                            params = \<lparr>filing = Some single, includeFICA = Some True,
                                       includeNI = None, personalAllowance = None\<rparr>\<rparr>"


section \<open>Properties of the loop in exact arithmetic\<close>

subsection \<open>The slice amount\<close>

lemma sliceAmount_nonneg: "0 \<le> sliceAmount r c l"
  by (cases c; cases l) simp_all

lemma sliceAmount_le: "0 \<le> r \<Longrightarrow> sliceAmount r c l \<le> r"
  by (cases c; cases l) simp_all

lemma sliceAmount_mono: "r \<le> r' \<Longrightarrow> sliceAmount r c l \<le> sliceAmount r' c l"
  by (cases c; cases l) auto

lemma sliceAmount_rest_mono:
  "r \<le> r' \<Longrightarrow> r - sliceAmount r c l \<le> r' - sliceAmount r' c l"
  by (cases c; cases l) (auto simp: max_def min_def)

lemma sliceAmount_none_yet:
  "sliceAmount r c l \<le> 0 \<Longrightarrow> 0 < sliceAmount r' c l \<Longrightarrow> r \<le> 0"
  by (cases c; cases l) (auto simp: max_def min_def split: if_splits)


subsection \<open>One iteration\<close>

text \<open>The second equation of the loop with its local bindings unfolded.\<close>

lemma calc_loop_step:
  "calc_loop (band # rest) r l t sl =
     (if 0 < sliceAmount r (cap_of band) l
      then (if r - sliceAmount r (cap_of band) l \<le> 0
            then \<lparr>tax = t + sliceAmount r (cap_of band) l * Band.rate band,
                  slices = sl @ [\<lparr>Slice.amount = sliceAmount r (cap_of band) l,
                                  Slice.rate = Band.rate band,
                                  Slice.tax = sliceAmount r (cap_of band) l * Band.rate band\<rparr>]\<rparr>
            else calc_loop rest (r - sliceAmount r (cap_of band) l) (cap_of band)
                   (t + sliceAmount r (cap_of band) l * Band.rate band)
                   (sl @ [\<lparr>Slice.amount = sliceAmount r (cap_of band) l,
                           Slice.rate = Band.rate band,
                           Slice.tax = sliceAmount r (cap_of band) l * Band.rate band\<rparr>]))
      else (if r \<le> 0 then \<lparr>tax = t, slices = sl\<rparr> else calc_loop rest r l t sl))"
  by (simp add: Let_def)

subsection \<open>The running total\<close>

text \<open>With rates that are not negative the total never falls below its start.\<close>

lemma calc_loop_tax_ge:
  "list_all (\<lambda>b. 0 \<le> Band.rate b) bs \<Longrightarrow> t \<le> ProgressiveTax.tax (calc_loop bs r l t sl)"
proof (induction bs arbitrary: r l t sl)
  case Nil
  then show ?case by simp
next
  case (Cons band rest)
  let ?a = "sliceAmount r (cap_of band) l"
  from Cons.prems have rate: "0 \<le> Band.rate band" and rest: "list_all (\<lambda>b. 0 \<le> Band.rate b) rest"
    by simp_all
  have step: "t \<le> t + ?a * Band.rate band"
    using rate sliceAmount_nonneg [of r "cap_of band" l] by simp
  have "t + ?a * Band.rate band
          \<le> ProgressiveTax.tax (calc_loop rest r' l' (t + ?a * Band.rate band) sl')" for r' l' sl'
    using Cons.IH [OF rest] .
  with step have deep: "t \<le> ProgressiveTax.tax (calc_loop rest r' l' (t + ?a * Band.rate band) sl')"
    for r' l' sl'
    by (rule order_trans)
  show ?case
    unfolding calc_loop_step using step deep Cons.IH [OF rest, of t] by simp
qed

text \<open>More income left to distribute and a larger total so far give a larger result.\<close>

lemma calc_loop_tax_mono:
  "list_all (\<lambda>b. 0 \<le> Band.rate b) bs \<Longrightarrow> r \<le> r' \<Longrightarrow> t \<le> t' \<Longrightarrow>
   ProgressiveTax.tax (calc_loop bs r l t sl) \<le> ProgressiveTax.tax (calc_loop bs r' l t' sl')"
proof (induction bs arbitrary: r r' l t t' sl sl')
  case Nil
  then show ?case by simp
next
  case (Cons band rest)
  let ?c = "cap_of band"
  let ?a = "sliceAmount r ?c l" and ?a' = "sliceAmount r' ?c l"
  let ?q = "Band.rate band"
  from Cons.prems have rate: "0 \<le> ?q" and rest: "list_all (\<lambda>b. 0 \<le> Band.rate b) rest"
    by simp_all
  have a_le: "?a \<le> ?a'" using Cons.prems(2) by (rule sliceAmount_mono)
  have rem_le: "r - ?a \<le> r' - ?a'" using Cons.prems(2) by (rule sliceAmount_rest_mono)
  have a'_nonneg: "0 \<le> ?a'" by (rule sliceAmount_nonneg)
  have tax_le: "t + ?a * ?q \<le> t' + ?a' * ?q"
    using a_le rate Cons.prems(3) by (simp add: add_mono mult_right_mono)
  have t_le: "t \<le> t' + ?a' * ?q"
    using Cons.prems(3) rate a'_nonneg by (simp add: add_increasing2)
  have ge: "u \<le> ProgressiveTax.tax (calc_loop rest x y u z)" for u x y z
    using rest by (rule calc_loop_tax_ge)
  show ?case
  proof (cases "0 < ?a")
    case pos: True
    then have pos': "0 < ?a'" using a_le by simp
    show ?thesis
    proof (cases "r - ?a \<le> 0")
      case True
      have "t + ?a * ?q \<le> ProgressiveTax.tax (calc_loop rest x y (t' + ?a' * ?q) z)" for x y z
        using tax_le ge by (rule order_trans)
      with pos pos' True tax_le show ?thesis
        unfolding calc_loop_step by simp
    next
      case False
      then have "\<not> r' - ?a' \<le> 0" using rem_le by simp
      with pos pos' False show ?thesis
        unfolding calc_loop_step using Cons.IH [OF rest rem_le tax_le] by simp
    qed
  next
    case nopos: False
    show ?thesis
    proof (cases "0 < ?a'")
      case True
      with nopos have r0: "r \<le> 0" using sliceAmount_none_yet [of r ?c l r'] by simp
      have "t \<le> ProgressiveTax.tax (calc_loop rest x y (t' + ?a' * ?q) z)" for x y z
        using t_le ge by (rule order_trans)
      with nopos True r0 t_le show ?thesis
        unfolding calc_loop_step by simp
    next
      case False
      have "t \<le> ProgressiveTax.tax (calc_loop rest x y t' z)" for x y z
        using Cons.prems(3) ge by (rule order_trans)
      with nopos False Cons.prems show ?thesis
        unfolding calc_loop_step using Cons.IH [OF rest Cons.prems(2) Cons.prems(3)] by simp
    qed
  qed
qed

subsection \<open>The slices\<close>

text \<open>
  When the last band is unbounded and the previous cap is finite, everything that
  remains is handed out.
\<close>

lemma calc_loop_complete:
  "bs \<noteq> [] \<Longrightarrow> upto (last bs) = None \<Longrightarrow> 0 \<le> r \<Longrightarrow>
   sum_list (map Slice.amount (ProgressiveTax.slices (calc_loop bs r (Fin l) t sl)))
     = sum_list (map Slice.amount sl) + r"
proof (induction bs arbitrary: r l t sl)
  case Nil
  then show ?case by simp
next
  case (Cons band rest)
  show ?case
  proof (cases "upto band")
    case None
    then have "cap_of band = Infinity" by (simp add: cap_of_def)
    with Cons.prems(3) show ?thesis
      unfolding calc_loop_step by (simp add: max_def)
  next
    case (Some u)
    then have cap: "cap_of band = Fin u" by (simp add: cap_of_def)
    with Some Cons.prems have rest: "rest \<noteq> []" "upto (last rest) = None"
      by (auto split: if_splits)
    let ?a = "sliceAmount r (Fin u) (Fin l)"
    let ?s = "\<lparr>Slice.amount = ?a, Slice.rate = Band.rate band, Slice.tax = ?a * Band.rate band\<rparr>"
    have le: "?a \<le> r" using Cons.prems(3) by (rule sliceAmount_le)
    then have rem: "0 \<le> r - ?a" by simp
    show ?thesis
    proof (cases "0 < ?a")
      case pos: True
      show ?thesis
      proof (cases "r - ?a \<le> 0")
        case True
        with rem have "?a = r" by simp
        with pos True show ?thesis
          unfolding calc_loop_step cap by (simp del: sliceAmount.simps)
      next
        case False
        have "sum_list (map Slice.amount (ProgressiveTax.slices
                (calc_loop rest (r - ?a) (Fin u) (t + ?a * Band.rate band) (sl @ [?s]))))
              = sum_list (map Slice.amount (sl @ [?s])) + (r - ?a)"
          using rest rem by (rule Cons.IH)
        with pos False show ?thesis
          unfolding calc_loop_step cap by (simp del: sliceAmount.simps)
      qed
    next
      case nopos: False
      show ?thesis
      proof (cases "r \<le> 0")
        case True
        with Cons.prems(3) have "r = 0" by simp
        with nopos show ?thesis
          unfolding calc_loop_step cap by (simp del: sliceAmount.simps)
      next
        case False
        have "sum_list (map Slice.amount (ProgressiveTax.slices (calc_loop rest r (Fin l) t sl)))
              = sum_list (map Slice.amount sl) + r"
          using rest Cons.prems(3) by (rule Cons.IH)
        with nopos False show ?thesis
          unfolding calc_loop_step cap by (simp del: sliceAmount.simps)
      qed
    qed
  qed
qed

text \<open>
  The loop only appends: the new slices follow the order of the bands, one per band at
  most, each with a positive amount.
\<close>

lemma calc_loop_slices:
  "\<exists>ys. ProgressiveTax.slices (calc_loop bs r l t sl) = sl @ ys \<and>
        subseq (map Slice.rate ys) (map Band.rate bs) \<and>
        list_all (\<lambda>s. 0 < Slice.amount s) ys"
proof (induction bs arbitrary: r l t sl)
  case Nil
  then show ?case by simp
next
  case (Cons band rest)
  let ?a = "sliceAmount r (cap_of band) l"
  let ?s = "\<lparr>Slice.amount = ?a, Slice.rate = Band.rate band, Slice.tax = ?a * Band.rate band\<rparr>"
  show ?case
  proof (cases "0 < ?a")
    case pos: True
    show ?thesis
    proof (cases "r - ?a \<le> 0")
      case True
      with pos show ?thesis
        unfolding calc_loop_step by simp
    next
      case False
      obtain ys where ys:
        "ProgressiveTax.slices (calc_loop rest (r - ?a) (cap_of band) (t + ?a * Band.rate band)
           (sl @ [?s])) = (sl @ [?s]) @ ys"
        "subseq (map Slice.rate ys) (map Band.rate rest)"
        "list_all (\<lambda>s. 0 < Slice.amount s) ys"
        using Cons.IH by blast
      have "ProgressiveTax.slices (calc_loop (band # rest) r l t sl) = sl @ (?s # ys)"
        unfolding calc_loop_step using pos False ys(1) by simp
      moreover have "subseq (map Slice.rate (?s # ys)) (map Band.rate (band # rest))"
        using ys(2) by simp
      moreover have "list_all (\<lambda>s. 0 < Slice.amount s) (?s # ys)"
        using ys(3) pos by simp
      ultimately show ?thesis by blast
    qed
  next
    case nopos: False
    show ?thesis
    proof (cases "r \<le> 0")
      case True
      with nopos show ?thesis
        unfolding calc_loop_step by simp
    next
      case False
      obtain ys where ys:
        "ProgressiveTax.slices (calc_loop rest r l t sl) = sl @ ys"
        "subseq (map Slice.rate ys) (map Band.rate rest)"
        "list_all (\<lambda>s. 0 < Slice.amount s) ys"
        using Cons.IH by blast
      have "ProgressiveTax.slices (calc_loop (band # rest) r l t sl) = sl @ ys"
        unfolding calc_loop_step using nopos False ys(1) by simp
      moreover have "subseq (map Slice.rate ys) (map Band.rate (band # rest))"
        using ys(2) by (simp add: list_emb_Cons)
      ultimately show ?thesis using ys(3) by blast
    qed
  qed
qed

text \<open>
  In exact arithmetic the slice amounts add up to the income, for every income that is
  not negative.
\<close>

lemma calc_exact_complete:
  assumes "valid_partition bs" and "0 \<le> income"
  shows "sum_list (map Slice.amount (ProgressiveTax.slices (calcProgressiveTax income bs))) = income"
proof -
  from assms(1) have ne: "bs \<noteq> []" and lst: "upto (last bs) = None"
    by (simp_all add: valid_partition_def)
  from assms(2) have "0 \<le> max 0 income" by simp
  from calc_loop_complete [OF ne lst this, of 0 0 "[]"] assms(2)
  show ?thesis by (simp add: calcProgressiveTax_def)
qed


text \<open>A subsequence of a sorted list is sorted.\<close>

lemma subseq_sorted_wrt: "subseq xs ys \<Longrightarrow> sorted_wrt P ys \<Longrightarrow> sorted_wrt P xs"
proof (induction rule: list_emb.induct)
  case (list_emb_Nil ys)
  then show ?case by simp
next
  case (list_emb_Cons xs ys y)
  then show ?case by simp
next
  case (list_emb_Cons2 x y xs ys)
  then have "\<forall>z\<in>set xs. z \<in> set ys" using list_emb_set [of "(=)" xs ys] by auto
  with list_emb_Cons2 show ?case by auto
qed

section \<open>Properties of rounding\<close>










section \<open>Properties of the loop in double arithmetic\<close>

subsection \<open>Whole numbers\<close>









subsection \<open>One iteration\<close>


subsection \<open>The slices for whole numbers\<close>





subsection \<open>The UK bands\<close>








section \<open>The claims\<close>




text \<open>
  C2, as stated: with the bands \<open>[{upto: 100, rate: 0}, {upto: null, rate: 0.1}]\<close>,
  income 100 gives tax 0 and income 150 gives tax 5 with exactly one slice, of amount 50.
  The taxes are right, but at 150 the zero-rate band has received 100 and is a slice of
  its own, so there are two slices and the first has amount 100.
\<close>

theorem boundary_two_slices_counterexample:
  "\<not> (ProgressiveTax.tax (calcProgressiveTax 100 two_bands) = 0 \<and>
      ProgressiveTax.tax (calcProgressiveTax 150 two_bands) = 5 \<and>
      length (ProgressiveTax.slices (calcProgressiveTax 150 two_bands)) = 1 \<and>
      Slice.amount (hd (ProgressiveTax.slices (calcProgressiveTax 150 two_bands))) = 50)"
  by (simp add: calcProgressiveTax_def two_bands_def cap_of_def)

text \<open>
  C2, amended: income 100 gives tax 0 and the single slice of amount 100 at rate 0
  (nothing goes to the band above the boundary); income 150 gives tax 5 with exactly two
  slices, the zero-rate slice of amount 100 (tax 0) followed by the slice of amount 50 at
  rate 0.1 (tax 5).
\<close>

theorem boundary_exactness:
  "calcProgressiveTax 100 two_bands =
     \<lparr>tax = 0, slices = [\<lparr>Slice.amount = 100, Slice.rate = 0, Slice.tax = 0\<rparr>]\<rparr> \<and>
   calcProgressiveTax 150 two_bands =
     \<lparr>tax = 5, slices = [\<lparr>Slice.amount = 100, Slice.rate = 0, Slice.tax = 0\<rparr>,
                         \<lparr>Slice.amount = 50, Slice.rate = 0.1, Slice.tax = 5\<rparr>]\<rparr>"
  by (simp add: calcProgressiveTax_def two_bands_def cap_of_def)




text \<open>
  C4, as stated: for every income and every sequence of bands the slices are in strictly
  increasing order of rate. The slices follow the order of the bands, whatever their
  rates: with the rates 0.2 and then 0.1 the slices have the rates 0.2 and then 0.1.
\<close>

theorem slices_in_band_order_counterexample:
  "\<not> sorted_wrt (<) (map Slice.rate (ProgressiveTax.slices (calcProgressiveTax 150 falling_bands)))"
proof -
  have "ProgressiveTax.slices (calcProgressiveTax 150 falling_bands) =
          [\<lparr>Slice.amount = 100, Slice.rate = 0.2, Slice.tax = 20\<rparr>,
           \<lparr>Slice.amount = 50, Slice.rate = 0.1, Slice.tax = 5\<rparr>]"
    by (simp add: calcProgressiveTax_def falling_bands_def cap_of_def)
  then have "map Slice.rate (ProgressiveTax.slices (calcProgressiveTax 150 falling_bands))
               = [1 / 5, 1 / 10]"
    by simp
  moreover have "\<not> sorted_wrt (<) [1 / 5, 1 / 10 :: real]"
    by code_simp
  ultimately show ?thesis by simp
qed

text \<open>
  C4, amended: for every income and every sequence of bands, the slices are produced in
  the order of the bands (their rates are a subsequence of the bands' rates), so they are
  in strictly increasing order of rate whenever the bands' rates are strictly increasing;
  and every slice has an amount greater than 0.
\<close>

theorem slices_in_band_order:
  "subseq (map Slice.rate (ProgressiveTax.slices (calcProgressiveTax income bs)))
          (map Band.rate bs) \<and>
   (sorted_wrt (<) (map Band.rate bs) \<longrightarrow>
      sorted_wrt (<) (map Slice.rate (ProgressiveTax.slices (calcProgressiveTax income bs)))) \<and>
   list_all (\<lambda>s. 0 < Slice.amount s) (ProgressiveTax.slices (calcProgressiveTax income bs))"
proof -
  obtain ys where ys:
    "ProgressiveTax.slices (calc_loop bs (max 0 income) (Fin 0) 0 []) = [] @ ys"
    "subseq (map Slice.rate ys) (map Band.rate bs)"
    "list_all (\<lambda>s. 0 < Slice.amount s) ys"
    using calc_loop_slices by blast
  then have eq: "ProgressiveTax.slices (calcProgressiveTax income bs) = ys"
    by (simp add: calcProgressiveTax_def)
  have "sorted_wrt (<) (map Slice.rate ys)" if "sorted_wrt (<) (map Band.rate bs)"
    using ys(2) that by (rule subseq_sorted_wrt)
  with ys(2,3) show ?thesis unfolding eq by simp
qed

theorem slices_in_band_order_witness:
  "sorted_wrt (<) (map Band.rate (india_new_bands None)) \<and>
   subseq (map Slice.rate (ProgressiveTax.slices (calcProgressiveTax 800000 (india_new_bands None))))
          (map Band.rate (india_new_bands None)) \<and>
   sorted_wrt (<) (map Slice.rate
      (ProgressiveTax.slices (calcProgressiveTax 800000 (india_new_bands None)))) \<and>
   list_all (\<lambda>s. 0 < Slice.amount s)
      (ProgressiveTax.slices (calcProgressiveTax 800000 (india_new_bands None)))"
proof -
  have h: "sorted_wrt (<) (map Band.rate (india_new_bands None))"
    by (simp add: india_new_bands_def)
  from h slices_in_band_order [of 800000 "india_new_bands None"] show ?thesis by simp
qed

text \<open>
  C5. Monotonicity: for every valid band partition (with rates that are fractions in
  \<open>[0, 1]\<close>, as the band model has them) and incomes \<open>x \<le> y\<close>, the total tax for \<open>x\<close>
  is at most the total tax for \<open>y\<close>.
\<close>

theorem calcProgressiveTax_monotone:
  assumes "valid_partition bs" and "valid_rates bs" and "x \<le> y"
  shows "ProgressiveTax.tax (calcProgressiveTax x bs) \<le> ProgressiveTax.tax (calcProgressiveTax y bs)"
proof -
  from assms(2) have "list_all (\<lambda>b. 0 \<le> Band.rate b) bs"
    by (simp add: valid_rates_def list_all_iff)
  moreover from assms(3) have "max 0 x \<le> max 0 y" by simp
  ultimately show ?thesis
    unfolding calcProgressiveTax_def by (rule calc_loop_tax_mono) simp
qed

theorem calcProgressiveTax_monotone_witness:
  "valid_partition (us_bands None) \<and> valid_rates (us_bands None) \<and> (50000::real) \<le> 120000 \<and>
   ProgressiveTax.tax (calcProgressiveTax 50000 (us_bands None))
     \<le> ProgressiveTax.tax (calcProgressiveTax 120000 (us_bands None))"
proof -
  have v: "valid_partition (us_bands None)"
    by (simp add: valid_partition_def us_bands_def nullish_def opt_field_def)
  have q: "valid_rates (us_bands None)"
    by (simp add: valid_rates_def us_bands_def nullish_def opt_field_def)
  have le: "(50000::real) \<le> 120000" by simp
  from v q le calcProgressiveTax_monotone [OF v q le] show ?thesis by simp
qed

text \<open>
  C6. Capped surcharge: with \<open>includeFICA\<close> enabled the US Social Security item is
  \<open>0.062 * min(gross, 168600)\<close> for every gross income; for gross income 200,000 it is
  \<open>168600 * 0.062\<close> and not \<open>200000 * 0.062\<close>.
\<close>

theorem us_social_security_capped:
  assumes "includeFICA p = Some True"
  shows "us_extras taxable gross (Some p) =
           [\<lparr>label = ''Social Security (6.2%)'', ExtraItem.amount = 0.062 * min gross 168600\<rparr>,
            \<lparr>label = ''Medicare (1.45%)'', ExtraItem.amount = 0.0145 * gross\<rparr>] \<and>
         ExtraItem.amount (hd (us_extras taxable 200000 (Some p))) = 168600 * 0.062 \<and>
         ExtraItem.amount (hd (us_extras taxable 200000 (Some p))) \<noteq> 200000 * 0.062"
  using assms by (simp add: us_extras_def truthy_def opt_field_def Let_def)

theorem us_social_security_capped_witness:
  "includeFICA (the (defaultParams (taxConfigs us))) = Some True \<and>
   us_extras 185000 200000 (defaultParams (taxConfigs us)) =
     [\<lparr>label = ''Social Security (6.2%)'', ExtraItem.amount = 10453.2\<rparr>,
      \<lparr>label = ''Medicare (1.45%)'', ExtraItem.amount = 2900\<rparr>]"
proof -
  have h: "includeFICA (the (defaultParams (taxConfigs us))) = Some True"
    by (simp add: taxConfigs_def)
  have d: "defaultParams (taxConfigs us) = Some (the (defaultParams (taxConfigs us)))"
    by (simp add: taxConfigs_def)
  from us_social_security_capped [OF h, of 185000 200000] h show ?thesis
    by (simp add: d [symmetric])
qed

text \<open>
  C7. Two-tier surcharge: with \<open>includeNI\<close> enabled the UK National Insurance item is
  \<open>0.08 * max(0, min(gross, 50270) - 12570) + 0.02 * max(0, gross - 50270)\<close> for every
  gross income, whatever the taxable income; the component passes it the gross annual
  amount, before deductions.
\<close>

theorem uk_national_insurance_two_tier:
  assumes "country s = uk" and "includeNI (params s) = Some True"
  shows "uk_extras taxable gross (Some (params s)) =
           [\<lparr>label = ''National Insurance (employee)'',
             ExtraItem.amount = 0.08 * max 0 (min gross 50270 - 12570)
                                + 0.02 * max 0 (gross - 50270)\<rparr>] \<and>
         Figures.extras (compute s) =
           [\<lparr>label = ''National Insurance (employee)'',
             ExtraItem.amount = 0.08 * max 0 (min (grossAnnual (compute s)) 50270 - 12570)
                                + 0.02 * max 0 (grossAnnual (compute s) - 50270)\<rparr>] \<and>
         grossAnnual (compute s) =
           (if period s = annual then CalcState.amount s else CalcState.amount s * 12)"
  using assms
  by (simp add: uk_extras_def truthy_def opt_field_def Let_def compute_def taxConfigs_def)

theorem uk_national_insurance_two_tier_witness:
  "country uk_state = uk \<and> includeNI (params uk_state) = Some True \<and>
   grossAnnual (compute uk_state) = 60000 \<and> taxableBase (compute uk_state) = 50000 \<and>
   Figures.extras (compute uk_state) =
     [\<lparr>label = ''National Insurance (employee)'', ExtraItem.amount = 3210.6\<rparr>]"
proof -
  have c: "country uk_state = uk" by (simp add: uk_state_def)
  have n: "includeNI (params uk_state) = Some True" by (simp add: uk_state_def)
  have g: "(if period uk_state = annual then CalcState.amount uk_state
            else CalcState.amount uk_state * 12) = 60000"
    by (simp add: uk_state_def)
  have t: "taxableBase (compute uk_state) = 50000"
    by (simp add: compute_def Let_def uk_state_def)
  from uk_national_insurance_two_tier [OF c n] g have
    "grossAnnual (compute uk_state) = 60000" and
    "Figures.extras (compute uk_state) =
       [\<lparr>label = ''National Insurance (employee)'',
         ExtraItem.amount = 0.08 * max 0 (min 60000 50270 - 12570) + 0.02 * max 0 (60000 - 50270)\<rparr>]"
    by simp_all
  with c n t show ?thesis by simp
qed

text \<open>
  C8. Guarded effective rate: the effective rate is \<open>totalTax / grossAnnual\<close> when the
  gross annual amount is positive and exactly 0 when it is 0, for every state of the
  form; it is never the result of a division by zero.
\<close>

theorem effRate_guarded:
  "(0 < grossAnnual (compute s) \<longrightarrow>
      effRate (compute s) = Some (totalTax (compute s) / grossAnnual (compute s))) \<and>
   (grossAnnual (compute s) = 0 \<longrightarrow> effRate (compute s) = Some 0) \<and>
   effRate (compute s) \<noteq> None"
  by (simp add: compute_def Let_def js_div_def)

theorem effRate_guarded_witness:
  "grossAnnual (compute zero_state) = 0 \<and> effRate (compute zero_state) = Some 0 \<and>
   0 < grossAnnual (compute uk_state) \<and>
   effRate (compute uk_state) = Some (totalTax (compute uk_state) / 60000)"
proof -
  have z: "grossAnnual (compute zero_state) = 0"
    by (simp add: compute_def Let_def zero_state_def)
  have g: "grossAnnual (compute uk_state) = 60000"
    by (simp add: compute_def Let_def uk_state_def)
  then have p: "0 < grossAnnual (compute uk_state)" by simp
  from effRate_guarded [of zero_state] z have "effRate (compute zero_state) = Some 0"
    by simp
  moreover from effRate_guarded [of uk_state] p g
  have "effRate (compute uk_state) = Some (totalTax (compute uk_state) / 60000)"
    by simp
  ultimately show ?thesis using z p by simp
qed

text \<open>
  C9. The US extras are the empty list whenever \<open>includeFICA\<close> is not true, and the UK
  extras are the empty list whenever \<open>includeNI\<close> is not true, for every gross and
  taxable income; the total tax is then the band tax alone.
\<close>

theorem extras_empty_when_disabled:
  "(opt_field p includeFICA \<noteq> Some True \<longrightarrow> us_extras taxable gross p = []) \<and>
   (opt_field p includeNI \<noteq> Some True \<longrightarrow> uk_extras taxable gross p = []) \<and>
   (country s = us \<and> includeFICA (params s) \<noteq> Some True \<longrightarrow>
      Figures.extras (compute s) = [] \<and> totalTax (compute s) = incomeTax (compute s)) \<and>
   (country s' = uk \<and> includeNI (params s') \<noteq> Some True \<longrightarrow>
      Figures.extras (compute s') = [] \<and> totalTax (compute s') = incomeTax (compute s'))"
proof -
  have a: "opt_field p includeFICA \<noteq> Some True \<longrightarrow> us_extras taxable gross p = []"
    by (simp add: us_extras_def truthy_def)
  have b: "opt_field p includeNI \<noteq> Some True \<longrightarrow> uk_extras taxable gross p = []"
    by (simp add: uk_extras_def truthy_def)
  have c: "country s = us \<and> includeFICA (params s) \<noteq> Some True \<longrightarrow>
      Figures.extras (compute s) = [] \<and> totalTax (compute s) = incomeTax (compute s)"
    by (simp add: compute_def Let_def taxConfigs_def us_extras_def truthy_def opt_field_def)
  have d: "country s' = uk \<and> includeNI (params s') \<noteq> Some True \<longrightarrow>
      Figures.extras (compute s') = [] \<and> totalTax (compute s') = incomeTax (compute s')"
    by (simp add: compute_def Let_def taxConfigs_def uk_extras_def truthy_def opt_field_def)
  from a b c d show ?thesis by blast
qed

theorem extras_empty_when_disabled_witness:
  "opt_field (Some (params us_no_fica_state)) includeFICA \<noteq> Some True \<and>
   us_extras 60000 60000 (Some (params us_no_fica_state)) = [] \<and>
   opt_field (Some (params us_no_fica_state)) includeNI \<noteq> Some True \<and>
   uk_extras 60000 60000 (Some (params us_no_fica_state)) = [] \<and>
   (country us_no_fica_state = us \<and> includeFICA (params us_no_fica_state) \<noteq> Some True) \<and>
   Figures.extras (compute us_no_fica_state) = [] \<and>
   totalTax (compute us_no_fica_state) = incomeTax (compute us_no_fica_state) \<and>
   (country uk_no_ni_state = uk \<and> includeNI (params uk_no_ni_state) \<noteq> Some True) \<and>
   Figures.extras (compute uk_no_ni_state) = [] \<and>
   totalTax (compute uk_no_ni_state) = incomeTax (compute uk_no_ni_state)"
proof -
  have a: "opt_field (Some (params us_no_fica_state)) includeFICA \<noteq> Some True"
    by (simp add: opt_field_def us_no_fica_state_def)
  have b: "opt_field (Some (params us_no_fica_state)) includeNI \<noteq> Some True"
    by (simp add: opt_field_def us_no_fica_state_def)
  have c: "country us_no_fica_state = us \<and> includeFICA (params us_no_fica_state) \<noteq> Some True"
    by (simp add: us_no_fica_state_def)
  have d: "country uk_no_ni_state = uk \<and> includeNI (params uk_no_ni_state) \<noteq> Some True"
    by (simp add: uk_no_ni_state_def no_params_def)
  from extras_empty_when_disabled
         [of "Some (params us_no_fica_state)" 60000 60000 us_no_fica_state uk_no_ni_state]
       a b c d
  show ?thesis by blast
qed

text \<open>
  C10. The gross amount reaches the extras unclamped: for the gross annual amount
  \<open>-1000\<close> with \<open>includeFICA\<close> enabled the US extras are two items with negative amounts
  (Social Security \<open>min(-1000, 168600) * 0.062 = -62\<close> and Medicare
  \<open>-1000 * 0.0145 = -14.5\<close>), while \<open>calcProgressiveTax\<close> clamps its income to zero.
\<close>

theorem negative_gross_reaches_extras:
  "grossAnnual (compute negative_gross_state) = - 1000 \<and>
   Figures.extras (compute negative_gross_state) =
     [\<lparr>label = ''Social Security (6.2%)'', ExtraItem.amount = min (- 1000) 168600 * 0.062\<rparr>,
      \<lparr>label = ''Medicare (1.45%)'', ExtraItem.amount = - 1000 * 0.0145\<rparr>] \<and>
   min (- 1000) 168600 * 0.062 = (- 62 :: real) \<and> (- 62 :: real) < 0 \<and>
   - 1000 * 0.0145 = (- 14.5 :: real) \<and> (- 14.5 :: real) < 0 \<and>
   extraTotal (compute negative_gross_state) = - 76.5 \<and>
   taxableBase (compute negative_gross_state) = 0 \<and>
   incomeTax (compute negative_gross_state) = 0 \<and>
   calcProgressiveTax (- 1000) bs = calcProgressiveTax 0 bs"
  by (simp add: compute_def Let_def negative_gross_state_def taxConfigs_def us_extras_def
        truthy_def opt_field_def us_bands_def nullish_def calcProgressiveTax_def cap_of_def)

end
